theory Spec2Isabelle
  imports Main "HOL-Library.Sublist"
begin

section \<open>Arrays and the preprocessing cells of the tracking notebook\<close>

text \<open>
  A four-dimensional numpy array (frames, rows, columns, channels) is its \<open>shape\<close>
  together with its elements, read by index.  Only indices inside the shape are
  meaningful; the notebook never indexes a movie outside it.
\<close>

type_synonym shape4 = "nat \<times> nat \<times> nat \<times> nat"

record 'a ndarray =
  shape :: shape4
  at :: "nat \<Rightarrow> nat \<Rightarrow> nat \<Rightarrow> nat \<Rightarrow> 'a"

type_synonym pad_widths = "(nat \<times> nat) \<times> (nat \<times> nat) \<times> (nat \<times> nat) \<times> (nat \<times> nat)"

text \<open>
  \<^verbatim>\<open>np.pad(a, ((b0,a0), (b1,a1), (b2,a2), (b3,a3)), mode='constant', constant_values=0)\<close>:
  every axis grows by its (before, after) pair, the old elements keep their relative
  place and every new element is 0.
\<close>

definition np_pad :: "('a::zero) ndarray \<Rightarrow> pad_widths \<Rightarrow> 'a ndarray" where
  "np_pad a pw =
     (case pw of ((b0, a0), (b1, a1), (b2, a2), (b3, a3)) \<Rightarrow>
      case shape a of (s0, s1, s2, s3) \<Rightarrow>
        \<lparr>shape = (b0 + s0 + a0, b1 + s1 + a1, b2 + s2 + a2, b3 + s3 + a3),
         at = (\<lambda>i j k l.
                 if b0 \<le> i \<and> i < b0 + s0 \<and> b1 \<le> j \<and> j < b1 + s1 \<and>
                    b2 \<le> k \<and> k < b2 + s2 \<and> b3 \<le> l \<and> l < b3 + s3
                 then at a (i - b0) (j - b1) (k - b2) (l - b3) else 0)\<rparr>)"

text \<open>\<^verbatim>\<open>a.shape[0]\<close>, \<^verbatim>\<open>a.shape[1]\<close>, \<^verbatim>\<open>a.shape[2]\<close>, \<^verbatim>\<open>a.shape[3]\<close>.\<close>

definition shape0 :: "'a ndarray \<Rightarrow> nat" where
  "shape0 a = (case shape a of (s0, s1, s2, s3) \<Rightarrow> s0)"

definition shape1 :: "'a ndarray \<Rightarrow> nat" where
  "shape1 a = (case shape a of (s0, s1, s2, s3) \<Rightarrow> s1)"

definition shape2 :: "'a ndarray \<Rightarrow> nat" where
  "shape2 a = (case shape a of (s0, s1, s2, s3) \<Rightarrow> s2)"

definition shape3 :: "'a ndarray \<Rightarrow> nat" where
  "shape3 a = (case shape a of (s0, s1, s2, s3) \<Rightarrow> s3)"

subsection \<open>Padding one movie (the body of the loop of cell 4)\<close>

text \<open>
  The three \<^verbatim>\<open>if\<close> blocks of the loop body, in the order of the source: height
  (axis 1), width (axis 2), frames (axis 0).  Every test and every width is computed
  from \<^verbatim>\<open>raw\<close>; \<^verbatim>\<open>tracked\<close> is padded with the widths found for \<^verbatim>\<open>raw\<close>.
  \<^verbatim>\<open>int(diff2pad / 2)\<close> is the quotient \<open>diff2pad div 2\<close> (the operand is a small
  non-negative integer, so the float division and the truncation are exact).  The
  normalisation of the frames of \<^verbatim>\<open>raw\<close> that precedes the three blocks changes
  elements and no shape; it is left out, and \<^verbatim>\<open>raw\<close> stands for its result.
\<close>

definition pad_y :: "nat \<Rightarrow> ('a::zero) ndarray \<times> 'a ndarray \<Rightarrow> 'a ndarray \<times> 'a ndarray" where
  "pad_y max_y rt =
     (case rt of (raw, tracked) \<Rightarrow>
      if shape1 raw < max_y then
        (let diff2pad = max_y - shape1 raw;
             pad_width = diff2pad div 2
         in if diff2pad mod 2 = 0
            then (np_pad raw ((0, 0), (pad_width, pad_width), (0, 0), (0, 0)),
                  np_pad tracked ((0, 0), (pad_width, pad_width), (0, 0), (0, 0)))
            else (np_pad raw ((0, 0), (pad_width + 1, pad_width), (0, 0), (0, 0)),
                  np_pad tracked ((0, 0), (pad_width + 1, pad_width), (0, 0), (0, 0))))
      else (raw, tracked))"

definition pad_x :: "nat \<Rightarrow> ('a::zero) ndarray \<times> 'a ndarray \<Rightarrow> 'a ndarray \<times> 'a ndarray" where
  "pad_x max_x rt =
     (case rt of (raw, tracked) \<Rightarrow>
      if shape2 raw < max_x then
        (let diff2pad = max_x - shape2 raw;
             pad_width = diff2pad div 2
         in if diff2pad mod 2 = 0
            then (np_pad raw ((0, 0), (0, 0), (pad_width, pad_width), (0, 0)),
                  np_pad tracked ((0, 0), (0, 0), (pad_width, pad_width), (0, 0)))
            else (np_pad raw ((0, 0), (0, 0), (pad_width + 1, pad_width), (0, 0)),
                  np_pad tracked ((0, 0), (0, 0), (pad_width + 1, pad_width), (0, 0))))
      else (raw, tracked))"

definition pad_frames :: "nat \<Rightarrow> ('a::zero) ndarray \<times> 'a ndarray \<Rightarrow> 'a ndarray \<times> 'a ndarray" where
  "pad_frames max_frames rt =
     (case rt of (raw, tracked) \<Rightarrow>
      if shape0 raw < max_frames then
        (let pad_width = max_frames - shape0 raw
         in (np_pad raw ((0, pad_width), (0, 0), (0, 0), (0, 0)),
             np_pad tracked ((0, pad_width), (0, 0), (0, 0), (0, 0))))
      else (raw, tracked))"

definition pad_movie ::
  "nat \<Rightarrow> nat \<Rightarrow> nat \<Rightarrow> ('a::zero) ndarray \<times> 'a ndarray \<Rightarrow> 'a ndarray \<times> 'a ndarray" where
  "pad_movie max_frames max_y max_x rt = pad_frames max_frames (pad_x max_x (pad_y max_y rt))"

subsection \<open>The maximum dimensions (the loop of cell 3)\<close>

datatype py_error = IndexError | ValueError | OSError int

text \<open>
  What \<^verbatim>\<open>load_trks\<close> returns: the lineages, the raw movies \<^verbatim>\<open>trks['X']\<close> and the
  label movies \<^verbatim>\<open>trks['y']\<close>, each indexed by movie.
\<close>

record ('l, 'a) trks =
  lineages :: "'l list"
  X :: "'a ndarray list"
  y :: "'a ndarray list"

text \<open>
  One round of the loop: only \<^verbatim>\<open>trks['X'][0]\<close> is read, and reading it from a file
  without movies raises IndexError.
\<close>

definition max_step :: "nat \<times> nat \<times> nat \<Rightarrow> ('l, 'a) trks \<Rightarrow> py_error + nat \<times> nat \<times> nat" where
  "max_step acc t =
     (case acc of (max_frames, max_y, max_x) \<Rightarrow>
      case X t of
        [] \<Rightarrow> Inl IndexError
      | m # _ \<Rightarrow>
          Inr (if shape0 m > max_frames then shape0 m else max_frames,
               if shape1 m > max_y then shape1 m else max_y,
               if shape2 m > max_x then shape2 m else max_x))"

fun max_loop :: "nat \<times> nat \<times> nat \<Rightarrow> ('l, 'a) trks list \<Rightarrow> py_error + nat \<times> nat \<times> nat" where
  "max_loop acc [] = Inr acc"
| "max_loop acc (t # ts) =
     (case max_step acc t of Inl e \<Rightarrow> Inl e | Inr acc' \<Rightarrow> max_loop acc' ts)"

definition max_dims :: "('l, 'a) trks list \<Rightarrow> py_error + nat \<times> nat \<times> nat" where
  "max_dims trks_files = max_loop (1, 1, 1) trks_files"

section \<open>The path constants of the tracking notebook\<close>

subsection \<open>Python's posixpath\<close>

text \<open>
  The functions of \<^verbatim>\<open>os.path\<close> the notebook calls, as posixpath defines them on
  strings.  The working directory (\<^verbatim>\<open>os.getcwd()\<close>) is a parameter of \<^verbatim>\<open>abspath\<close>
  and \<^verbatim>\<open>relpath\<close>.
\<close>

text \<open>\<^verbatim>\<open>s.split('/')\<close> and \<^verbatim>\<open>'/'.join(xs)\<close>.\<close>

fun split_sep :: "string \<Rightarrow> string list" where
  "split_sep [] = [[]]"
| "split_sep (c # cs) =
     (if c = CHR ''/'' then [] # split_sep cs
      else (case split_sep cs of [] \<Rightarrow> [[c]] | w # ws \<Rightarrow> (c # w) # ws))"

fun join_sep :: "string list \<Rightarrow> string" where
  "join_sep [] = []"
| "join_sep [x] = x"
| "join_sep (x # x' # xs) = x @ ''/'' @ join_sep (x' # xs)"

text \<open>\<^verbatim>\<open>s.rstrip('/')\<close>.\<close>

definition rstrip_sep :: "string \<Rightarrow> string" where
  "rstrip_sep s = rev (dropWhile (\<lambda>c. c = CHR ''/'') (rev s))"

text \<open>One round of the loop of \<^verbatim>\<open>os.path.join(a, *p)\<close>, and the whole call.\<close>

definition join2 :: "string \<Rightarrow> string \<Rightarrow> string" where
  "join2 path b =
     (if prefix ''/'' b then b
      else if path = [] \<or> last path = CHR ''/'' then path @ b
      else path @ ''/'' @ b)"

definition os_path_join :: "string \<Rightarrow> string list \<Rightarrow> string" where
  "os_path_join a p = foldl join2 a p"

definition dirname :: "string \<Rightarrow> string" where
  "dirname p =
     (let head = rev (dropWhile (\<lambda>c. c \<noteq> CHR ''/'') (rev p))
      in if head \<noteq> [] \<and> head \<noteq> replicate (length head) (CHR ''/'') then rstrip_sep head
         else head)"

definition initial_slashes :: "string \<Rightarrow> nat" where
  "initial_slashes path =
     (if prefix ''/'' path then (if prefix ''//'' path \<and> \<not> prefix ''///'' path then 2 else 1)
      else 0)"

text \<open>The loop of \<^verbatim>\<open>normpath\<close> over the components, with \<^verbatim>\<open>new_comps\<close> as accumulator.\<close>

fun norm_comps :: "nat \<Rightarrow> string list \<Rightarrow> string list \<Rightarrow> string list" where
  "norm_comps ini new_comps [] = new_comps"
| "norm_comps ini new_comps (c # comps) =
     (if c = [] \<or> c = ''.'' then norm_comps ini new_comps comps
      else if c \<noteq> ''..'' \<or> (ini = 0 \<and> new_comps = []) \<or>
              (new_comps \<noteq> [] \<and> last new_comps = ''..'')
        then norm_comps ini (new_comps @ [c]) comps
      else if new_comps \<noteq> [] then norm_comps ini (butlast new_comps) comps
      else norm_comps ini new_comps comps)"

definition normpath :: "string \<Rightarrow> string" where
  "normpath path =
     (if path = [] then ''.''
      else (let ini = initial_slashes path;
                p = replicate ini (CHR ''/'') @ join_sep (norm_comps ini [] (split_sep path))
            in if p = [] then ''.'' else p))"

definition isabs :: "string \<Rightarrow> bool" where
  "isabs s = prefix ''/'' s"

definition abspath :: "string \<Rightarrow> string \<Rightarrow> string" where
  "abspath cwd path = normpath (if isabs path then path else os_path_join cwd [path])"

definition relpath :: "string \<Rightarrow> string \<Rightarrow> string \<Rightarrow> py_error + string" where
  "relpath cwd path start =
     (if path = [] then Inl ValueError
      else (let start_list = filter (\<lambda>x. x \<noteq> []) (split_sep (abspath cwd start));
                path_list = filter (\<lambda>x. x \<noteq> []) (split_sep (abspath cwd path));
                i = length (longest_common_prefix start_list path_list);
                rel_list = replicate (length start_list - i) ''..'' @ drop i path_list
            in case rel_list of [] \<Rightarrow> Inr ''.'' | r # rs \<Rightarrow> Inr (os_path_join r rs)))"

text \<open>
  What the path functions read from the process and the system: the environment's
  \<^verbatim>\<open>HOME\<close> if it is set, the home directory of the current user in the password
  database (\<^verbatim>\<open>pwd.getpwuid(os.getuid()).pw_dir\<close>), the home directory the password
  database gives a user name (\<^verbatim>\<open>pwd.getpwnam(name).pw_dir\<close>, \<open>None\<close> for the KeyError of
  an unknown name), and the working directory (\<^verbatim>\<open>os.getcwd()\<close>).
\<close>

record os_env =
  HOME :: "string option"
  pw_dir :: string
  getpwnam :: "string \<Rightarrow> string option"
  getcwd :: string

text \<open>
  \<^verbatim>\<open>expanduser\<close>: a leading \<^verbatim>\<open>~\<close> alone becomes \<^verbatim>\<open>HOME\<close>, or the current user's home
  directory when \<^verbatim>\<open>HOME\<close> is not set; a leading \<^verbatim>\<open>~name\<close> becomes the home directory
  of that user, and the path is returned as it is when there is no such user.  The home
  directory loses its trailing slashes.
\<close>

definition expanduser :: "os_env \<Rightarrow> string \<Rightarrow> string" where
  "expanduser e path =
     (if \<not> prefix ''~'' path then path
      else (let i = 1 + length (takeWhile (\<lambda>c. c \<noteq> CHR ''/'') (drop 1 path))
            in case (if i = 1 then Some (case HOME e of Some h \<Rightarrow> h | None \<Rightarrow> pw_dir e)
                     else getpwnam e (take (i - 1) (drop 1 path))) of
                 None \<Rightarrow> path
               | Some userhome \<Rightarrow>
                   (let r = rstrip_sep userhome @ drop i path in if r = [] then ''/'' else r)))"



subsection \<open>Cell 7, cell 8 and the paths of the training cell\<close>











subsection \<open>Creating the directories (the loop of cell 8)\<close>

text \<open>
  \<^verbatim>\<open>errno.EEXIST\<close> on Linux.  What a call of \<^verbatim>\<open>os.makedirs(d)\<close> does depends on the file
  system: \<open>makedirs d\<close> is \<open>None\<close> when the call returns and the exception when it raises.
\<close>

definition EEXIST :: int where
  "EEXIST = 17"

definition try_makedirs :: "(string \<Rightarrow> py_error option) \<Rightarrow> string \<Rightarrow> py_error + unit" where
  "try_makedirs makedirs d =
     (case makedirs d of
        None \<Rightarrow> Inr ()
      | Some (OSError e) \<Rightarrow> (if e \<noteq> EEXIST then Inl (OSError e) else Inr ())
      | Some exc \<Rightarrow> Inl exc)"

fun create_dirs :: "(string \<Rightarrow> py_error option) \<Rightarrow> string list \<Rightarrow> py_error + unit" where
  "create_dirs makedirs [] = Inr ()"
| "create_dirs makedirs (d # ds) =
     (case try_makedirs makedirs d of Inl e \<Rightarrow> Inl e | Inr u \<Rightarrow> create_dirs makedirs ds)"

section \<open>The segmentation application\<close>

text \<open>
  Modelled from the spec: \<^verbatim>\<open>predict\<close> of the segmentation application
  (\<^verbatim>\<open>deepcell.applications.NuclearSegmentation\<close>), which the notebook calls and whose
  code is not among the sources.  The spec calls it a wrapper of a pretrained model that
  produces per-pixel instance labels from raw microscopy images: the pretrained model
  is a parameter that gives every pixel position of a movie its label, and the result has
  a label at each pixel of the input.
\<close>

definition predict ::
  "('a ndarray \<Rightarrow> nat \<Rightarrow> nat \<Rightarrow> nat \<Rightarrow> nat \<Rightarrow> nat) \<Rightarrow> 'a ndarray \<Rightarrow> nat ndarray" where
  "predict pretrained x = \<lparr>shape = shape x, at = pretrained x\<rparr>"

section \<open>The container build\<close>

text \<open>
  The Dockerfile as the list of its lines: comments, and instructions with their
  arguments.  A \<^verbatim>\<open>RUN\<close> in shell form is the list of the words of its command line after
  the shell's quote removal, with the operators \<^verbatim>\<open>&&\<close> and \<^verbatim>\<open>|\<close> as words of their own;
  the one \<^verbatim>\<open>RUN\<close> that is a compound \<^verbatim>\<open>if\<close> command is kept as its words, uninterpreted.  The
  \<^verbatim>\<open>FROM\<close> line is split at its variable reference.
\<close>

datatype part = Lit string | Var string

datatype instruction =
    Comment string
  | ARG string string
  | FROM "part list"
  | RUN "string list"
  | RUN_script "string list"
  | COPY "string list" string
  | WORKDIR string
  | CMD "string list"

definition Dockerfile :: "instruction list" where
  "Dockerfile =
    [Comment ''Use tensorflow/tensorflow as the base image'',
     Comment ''Change the build arg to edit the tensorflow version.'',
     Comment ''Only supporting python3.'',
     ARG ''TF_VERSION'' ''1.15.0-gpu'',
     FROM [Lit ''tensorflow/tensorflow:'', Var ''TF_VERSION'', Lit ''-py3''],
     Comment ''System maintenance'',
     RUN [''apt-get'', ''update'', ''&&'',
          ''DEBIAN_FRONTEND=noninteractive'', ''apt-get'', ''install'', ''-y'',
            ''python3-tk'', ''git'', ''libsm6'', ''&&'',
          ''rm'', ''-rf'', ''/var/lib/apt/lists/*'', ''&&'',
          ''/usr/local/bin/pip'', ''install'', ''--upgrade'', ''pip''],
     Comment ''Copy the setup.py and requirements.txt and install the deepcell-tf dependencies'',
     COPY [''setup.py'', ''requirements.txt''] ''/opt/deepcell-tf/'',
     Comment ''Prevent reinstallation of tensorflow and install all other requirements.'',
     RUN [''sed'', ''-i'', ''/tensorflow/d'', ''/opt/deepcell-tf/requirements.txt'', ''&&'',
          ''pip'', ''install'', ''-r'', ''/opt/deepcell-tf/requirements.txt''],
     Comment ''Copy the rest of the package code and its scripts'',
     COPY [''deepcell''] ''/opt/deepcell-tf/deepcell'',
     Comment ''Install deepcell via setup.py'',
     RUN [''pip'', ''install'', ''/opt/deepcell-tf'', ''&&'',
          ''cd'', ''/opt/deepcell-tf'', ''&&'',
          ''python'', ''setup.py'', ''build_ext'', ''--inplace''],
     Comment ''Install the latest version of keras-applications'',
     RUN [''pip'', ''install'', ''--upgrade'',
          ''git+https://github.com/keras-team/keras-applications.git''],
     Comment ''Install edge tpu compiler'',
     RUN [''curl'', ''https://packages.cloud.google.com/apt/doc/apt-key.gpg'', ''|'',
          ''apt-key'', ''add'', ''-''],
     RUN [''echo'', ''deb https://packages.cloud.google.com/apt coral-edgetpu-stable main'', ''|'',
          ''tee'', ''/etc/apt/sources.list.d/coral-edgetpu.list''],
     RUN [''apt-get'', ''update''],
     Comment ''RUN apt-get install -y edgetpu'',
     RUN [''apt-get'', ''install'', ''-y'', ''libedgetpu1-std''],
     RUN [''mkdir'', ''/coral''],
     WORKDIR ''/coral'',
     RUN [''git'', ''clone'', ''https://github.com/google-coral/tflite.git''],
     RUN [''pip'', ''install'',
          ''https://dl.google.com/coral/python/tflite_runtime-2.1.0.post1-cp36-cp36m-linux_x86_64.whl''],
     WORKDIR ''/coral/tflite/python/examples/classification'',
     RUN [''./install_requirements.sh''],
     WORKDIR ''/notebooks'',
     Comment ''Older versions of TensorFlow have notebooks, but they may not exist'',
     RUN_script [''if'', ''['', ''-n'', ''$(find /notebooks/ -prune)'', '']'', '';'', ''then'',
          ''mkdir'', ''-p'', ''/notebooks/intro_to_tensorflow'', ''&&'',
          ''ls'', ''-d'', ''/notebooks/*'', ''|'', ''grep'', ''-v'', ''intro_to_tensorflow'', ''|'',
          ''xargs'', ''-r'', ''mv'', ''-t'', ''/notebooks/intro_to_tensorflow'', '';'',
          ''fi''],
     Comment ''Copy over deepcell notebooks'',
     COPY [''scripts/''] ''/notebooks/'',
     CMD [''jupyter'', ''notebook'', ''--ip=0.0.0.0'', ''--allow-root'']]"

subsection \<open>What a build records\<close>

text \<open>
  The state of a build: the base image named by \<^verbatim>\<open>FROM\<close>, the build arguments in scope,
  the text files this Dockerfile has written (path to lines), the installations its
  \<^verbatim>\<open>RUN\<close> commands have requested, in order, the working directory and the default
  command.  Of the shell commands, \<^verbatim>\<open>apt-get install\<close>, \<^verbatim>\<open>pip install\<close>,
  \<^verbatim>\<open>sed -i /PAT/d\<close> and \<^verbatim>\<open>git clone\<close> change this state; the others (\<^verbatim>\<open>apt-get update\<close>,
  \<^verbatim>\<open>rm\<close>, \<^verbatim>\<open>cd\<close>, \<^verbatim>\<open>python setup.py\<close>, \<^verbatim>\<open>curl\<close>, \<^verbatim>\<open>apt-key\<close>, \<^verbatim>\<open>echo\<close>, \<^verbatim>\<open>tee\<close>,
  \<^verbatim>\<open>mkdir\<close>, the cloned \<^verbatim>\<open>install_requirements.sh\<close>, the \<^verbatim>\<open>if\<close> command) leave it as
  it is.  The image declares no \<^verbatim>\<open>ENTRYPOINT\<close>.
\<close>

datatype install =
    Apt "string list"
  | PipRequirements "string list"
  | Pip string
  | GitClone string

datatype build_error = COPY_missing string | No_such_file string

record image =
  base :: string
  env :: "string \<rightharpoonup> string"
  files :: "string \<rightharpoonup> string list"
  installs :: "install list"
  workdir :: string
  cmd :: "string list option"

definition empty_image :: image where
  "empty_image = \<lparr>base = [], env = Map.empty, files = Map.empty, installs = [],
                   workdir = ''/'', cmd = None\<rparr>"

text \<open>\<^verbatim>\<open>${NAME}\<close> in a \<^verbatim>\<open>FROM\<close> line: the value in scope, or nothing.\<close>

fun subst :: "(string \<rightharpoonup> string) \<Rightarrow> part list \<Rightarrow> string" where
  "subst e [] = []"
| "subst e (Lit s # ps) = s @ subst e ps"
| "subst e (Var n # ps) = (case e n of Some v \<Rightarrow> v | None \<Rightarrow> []) @ subst e ps"

subsection \<open>Shell commands\<close>

fun split_commands :: "string list \<Rightarrow> string list list" where
  "split_commands [] = [[]]"
| "split_commands (w # ws) =
     (if w = ''&&'' \<or> w = ''|'' then [] # split_commands ws
      else (case split_commands ws of [] \<Rightarrow> [[w]] | c # cs \<Rightarrow> (w # c) # cs))"

definition is_assignment :: "string \<Rightarrow> bool" where
  "is_assignment w = (CHR ''='' \<in> set w)"

definition is_option :: "string \<Rightarrow> bool" where
  "is_option w = (case w of [] \<Rightarrow> False | c # _ \<Rightarrow> c = CHR ''-'')"

text \<open>
  The script \<^verbatim>\<open>/PAT/d\<close> of sed deletes the lines that match PAT.  A pattern without
  regular-expression operators, as \<^verbatim>\<open>tensorflow\<close> is, matches the lines of which it is a
  substring.
\<close>

definition sed_delete_pattern :: "string \<Rightarrow> string option" where
  "sed_delete_pattern script =
     (if 3 \<le> length script \<and> hd script = CHR ''/'' \<and> drop (length script - 2) script = ''/d''
      then Some (take (length script - 3) (tl script)) else None)"

definition sed_d :: "string \<Rightarrow> string list \<Rightarrow> string list" where
  "sed_d pat ls = filter (\<lambda>l. \<not> sublist pat l) ls"

definition is_pip :: "string \<Rightarrow> bool" where
  "is_pip c = (c = ''pip'' \<or> c = ''/usr/local/bin/pip'')"

definition log_install :: "install list \<Rightarrow> image \<Rightarrow> image" where
  "log_install xs s = s\<lparr>installs := installs s @ xs\<rparr>"

definition exec_command :: "image \<Rightarrow> string list \<Rightarrow> build_error + image" where
  "exec_command s ws =
     (let argv = dropWhile is_assignment ws in
      if 2 \<le> length argv \<and> argv ! 0 = ''apt-get'' \<and> argv ! 1 = ''install'' then
        Inr (log_install [Apt (filter (\<lambda>w. \<not> is_option w) (drop 2 argv))] s)
      else if 4 = length argv \<and> is_pip (argv ! 0) \<and> argv ! 1 = ''install'' \<and> argv ! 2 = ''-r'' then
        (case files s (argv ! 3) of
           None \<Rightarrow> Inl (No_such_file (argv ! 3))
         | Some ls \<Rightarrow> Inr (log_install [PipRequirements ls] s))
      else if 2 \<le> length argv \<and> is_pip (argv ! 0) \<and> argv ! 1 = ''install'' then
        Inr (log_install (map Pip (filter (\<lambda>w. \<not> is_option w) (drop 2 argv))) s)
      else if 4 = length argv \<and> argv ! 0 = ''sed'' \<and> argv ! 1 = ''-i'' then
        (case sed_delete_pattern (argv ! 2) of
           None \<Rightarrow> Inr s
         | Some pat \<Rightarrow>
             (case files s (argv ! 3) of
                None \<Rightarrow> Inl (No_such_file (argv ! 3))
              | Some ls \<Rightarrow> Inr (s\<lparr>files := (files s)(argv ! 3 \<mapsto> sed_d pat ls)\<rparr>)))
      else if 3 = length argv \<and> argv ! 0 = ''git'' \<and> argv ! 1 = ''clone'' then
        Inr (log_install [GitClone (argv ! 2)] s)
      else Inr s)"

text \<open>The commands of a \<^verbatim>\<open>RUN\<close> line run in order; the first failure fails the build.\<close>

fun exec_commands :: "image \<Rightarrow> string list list \<Rightarrow> build_error + image" where
  "exec_commands s [] = Inr s"
| "exec_commands s (c # cs) =
     (case exec_command s c of Inl e \<Rightarrow> Inl e | Inr s' \<Rightarrow> exec_commands s' cs)"

subsection \<open>Copying from the build context\<close>

text \<open>
  The build context is the list of its text files, each with its path and its lines.  A
  source that is a file goes to the destination (into it, when the destination ends in a
  slash); a source that is a directory has its files copied below the destination; a
  source that is neither fails the build.
\<close>

type_synonym build_context = "(string \<times> string list) list"

definition strip_slash :: "string \<Rightarrow> string" where
  "strip_slash p = (if p \<noteq> [] \<and> last p = CHR ''/'' then butlast p else p)"

definition basename :: "string \<Rightarrow> string" where
  "basename p = rev (takeWhile (\<lambda>c. c \<noteq> CHR ''/'') (rev p))"

definition copy_source :: "build_context \<Rightarrow> string \<Rightarrow> string \<Rightarrow> (string \<times> string list) list option" where
  "copy_source ctx src dest =
     (case map_of ctx src of
        Some ls \<Rightarrow>
          Some [(if dest \<noteq> [] \<and> last dest = CHR ''/'' then dest @ basename src else dest, ls)]
      | None \<Rightarrow>
          (let d = strip_slash src;
               entries = filter (\<lambda>(p, ls). prefix (d @ ''/'') p) ctx
           in if entries = [] then None
              else Some (map (\<lambda>(p, ls). (strip_slash dest @ drop (length d) p, ls)) entries)))"

fun copy_sources :: "build_context \<Rightarrow> string list \<Rightarrow> string \<Rightarrow> image \<Rightarrow> build_error + image" where
  "copy_sources ctx [] dest s = Inr s"
| "copy_sources ctx (src # srcs) dest s =
     (case copy_source ctx src dest of
        None \<Rightarrow> Inl (COPY_missing src)
      | Some entries \<Rightarrow>
          copy_sources ctx srcs dest
            (s\<lparr>files := fold (\<lambda>(p, ls) f. f(p \<mapsto> ls)) entries (files s)\<rparr>))"

subsection \<open>The build\<close>

definition step ::
  "build_context \<Rightarrow> (string \<rightharpoonup> string) \<Rightarrow> image \<Rightarrow> instruction \<Rightarrow> build_error + image" where
  "step ctx args s i =
     (case i of
        Comment c \<Rightarrow> Inr s
      | ARG n d \<Rightarrow> Inr (s\<lparr>env := (env s)(n \<mapsto> (case args n of Some v \<Rightarrow> v | None \<Rightarrow> d))\<rparr>)
      | FROM ps \<Rightarrow> Inr (s\<lparr>base := subst (env s) ps\<rparr>)
      | RUN ws \<Rightarrow> exec_commands s (split_commands ws)
      | RUN_script t \<Rightarrow> Inr s
      | COPY srcs dest \<Rightarrow> copy_sources ctx srcs dest s
      | WORKDIR d \<Rightarrow> Inr (s\<lparr>workdir := d\<rparr>)
      | CMD argv \<Rightarrow> Inr (s\<lparr>cmd := Some argv\<rparr>))"

fun build_steps ::
  "build_context \<Rightarrow> (string \<rightharpoonup> string) \<Rightarrow> image \<Rightarrow> instruction list \<Rightarrow> build_error + image" where
  "build_steps ctx args s [] = Inr s"
| "build_steps ctx args s (i # is) =
     (case step ctx args s i of Inl e \<Rightarrow> Inl e | Inr s' \<Rightarrow> build_steps ctx args s' is)"

definition build :: "build_context \<Rightarrow> (string \<rightharpoonup> string) \<Rightarrow> instruction list \<Rightarrow> build_error + image" where
  "build ctx args dockerfile = build_steps ctx args empty_image dockerfile"

text \<open>
  The command of a container started from the image: the one given to
  \<^verbatim>\<open>docker run\<close>, or else the image's \<^verbatim>\<open>CMD\<close>.
\<close>

definition container_command :: "image \<Rightarrow> string list option \<Rightarrow> string list option" where
  "container_command img override = (case override of Some c \<Rightarrow> Some c | None \<Rightarrow> cmd img)"

section \<open>The vocabulary of the properties\<close>

subsection \<open>Pad widths\<close>

text \<open>
  The widths the loop body passes to \<^verbatim>\<open>np.pad\<close> for a deficit \<open>diff2pad\<close>:
  \<^verbatim>\<open>pad_width\<close> after, and \<^verbatim>\<open>pad_width\<close> or \<^verbatim>\<open>pad_width + 1\<close> before.
\<close>

definition before_width :: "nat \<Rightarrow> nat" where
  "before_width diff2pad = (if diff2pad mod 2 = 0 then diff2pad div 2 else diff2pad div 2 + 1)"

definition after_width :: "nat \<Rightarrow> nat" where
  "after_width diff2pad = diff2pad div 2"

subsection \<open>Readings of a Dockerfile and of an image\<close>

text \<open>The names the \<^verbatim>\<open>ARG\<close> lines of a Dockerfile declare.\<close>

definition build_arguments :: "instruction list \<Rightarrow> string list" where
  "build_arguments dockerfile =
     concat (map (\<lambda>i. case i of ARG n d \<Rightarrow> [n] | _ \<Rightarrow> []) dockerfile)"





text \<open>
  The four phases, and the phase an installation belongs to: \<^verbatim>\<open>apt-get install\<close> is
  the system phase unless one of its packages is an \<^verbatim>\<open>edgetpu\<close> package;
  \<^verbatim>\<open>pip install -r\<close> installs the Python dependencies; \<^verbatim>\<open>pip install /opt/deepcell-tf\<close>
  installs the package itself; whatever is fetched from a \<^verbatim>\<open>coral\<close> location belongs to
  the Edge TPU toolchain.  The upgrades of pip and of keras-applications belong to none
  of the four.
\<close>

datatype phase = System | PyDeps | Package | EdgeTPU

definition phase_rank :: "phase \<Rightarrow> nat" where
  "phase_rank p = (case p of System \<Rightarrow> 0 | PyDeps \<Rightarrow> 1 | Package \<Rightarrow> 2 | EdgeTPU \<Rightarrow> 3)"

definition phase_of :: "install \<Rightarrow> phase option" where
  "phase_of i =
     (case i of
        Apt pkgs \<Rightarrow> Some (if list_ex (sublist ''edgetpu'') pkgs then EdgeTPU else System)
      | PipRequirements ls \<Rightarrow> Some PyDeps
      | Pip t \<Rightarrow>
          (if t = ''/opt/deepcell-tf'' then Some Package
           else if sublist ''coral'' t then Some EdgeTPU else None)
      | GitClone url \<Rightarrow> (if sublist ''coral'' url then Some EdgeTPU else None))"

definition phases :: "image \<Rightarrow> phase list" where
  "phases img = List.map_filter phase_of (installs img)"

text \<open>
  The Dockerfile names the package of the Edge TPU compiler itself, in the line it has
  commented out: \<^verbatim>\<open>edgetpu\<close>.  The package was later renamed \<^verbatim>\<open>edgetpu-compiler\<close>.
  An image has the compiler installed when one of its \<^verbatim>\<open>apt-get install\<close> commands
  names either.
\<close>

definition edgetpu_compiler_packages :: "string list" where
  "edgetpu_compiler_packages = [''edgetpu'', ''edgetpu-compiler'']"

definition apt_packages :: "image \<Rightarrow> string list" where
  "apt_packages img = concat (map (\<lambda>i. case i of Apt pkgs \<Rightarrow> pkgs | _ \<Rightarrow> []) (installs img))"

definition installs_edgetpu_compiler :: "image \<Rightarrow> bool" where
  "installs_edgetpu_compiler img =
     list_ex (\<lambda>p. p \<in> set edgetpu_compiler_packages) (apt_packages img)"

subsection \<open>Root directories\<close>

text \<open>
  A component of a path in normal form: not empty, without a slash, neither \<^verbatim>\<open>.\<close> nor
  \<^verbatim>\<open>..\<close>.  A root directory in normal form is absolute and made of such components,
  at least one: \<^verbatim>\<open>/data\<close>, \<^verbatim>\<open>/mnt/volume/deepcell\<close>.
\<close>

definition plain_component :: "string \<Rightarrow> bool" where
  "plain_component c = (c \<noteq> [] \<and> CHR ''/'' \<notin> set c \<and> c \<noteq> ''.'' \<and> c \<noteq> ''..'')"


section \<open>Inputs to run the definitions on\<close>

text \<open>
  A movie of one frame, one row and two columns, padded to (2, 4, 5): the row deficit 3
  puts two zero rows before and one after, the column deficit 3 two zero columns before
  and one after, and the second frame is all zero.
\<close>

definition raw_ex :: "nat ndarray" where
  "raw_ex = \<lparr>shape = (1, 1, 2, 1), at = (\<lambda>i j k l. 7 + k)\<rparr>"

definition tracked_ex :: "nat ndarray" where
  "tracked_ex = \<lparr>shape = (1, 1, 2, 1), at = (\<lambda>i j k l. 1)\<rparr>"

text \<open>
  Two files; the second movie of the first file is larger than every first movie.  The
  maxima are those of the first movies, the same as for the files cut down to their first
  movies, and the large movie leaves the padding step with its own shape.
\<close>

definition movie_ex :: "nat \<Rightarrow> nat \<Rightarrow> nat \<Rightarrow> nat ndarray" where
  "movie_ex f h w = \<lparr>shape = (f, h, w, 1), at = (\<lambda>i j k l. 0)\<rparr>"

definition files_ex :: "(unit, nat) trks list" where
  "files_ex =
     [\<lparr>lineages = [(), ()], X = [movie_ex 2 3 4, movie_ex 9 9 9], y = [movie_ex 2 3 4, movie_ex 9 9 9]\<rparr>,
      \<lparr>lineages = [()], X = [movie_ex 1 5 2], y = [movie_ex 1 5 2]\<rparr>]"

definition files_ex' :: "(unit, nat) trks list" where
  "files_ex' =
     [\<lparr>lineages = [()], X = [movie_ex 2 3 4], y = [movie_ex 2 3 4]\<rparr>,
      \<lparr>lineages = [()], X = [movie_ex 1 5 2], y = [movie_ex 1 5 2]\<rparr>]"

text \<open>
  A context with the two files and the two directories the Dockerfile copies; two of the
  four lines of its requirements.txt contain \<^verbatim>\<open>tensorflow\<close>.
\<close>

definition ctx_ex :: build_context where
  "ctx_ex = [(''setup.py'', [''from setuptools import setup'']),
             (''requirements.txt'',
                [''numpy>=1.16'', ''tensorflow-gpu==1.15.0'', ''scipy'', ''# tensorflow pinned'']),
             (''deepcell/__init__.py'', [''import deepcell'']),
             (''scripts/a.ipynb'', [''{}''])]"

definition image_ex :: image where
  "image_ex = projr (build ctx_ex Map.empty Dockerfile)"

definition image_ex2 :: image where
  "image_ex2 = projr (build ctx_ex [''TF_VERSION'' \<mapsto> ''2.0.0''] Dockerfile)"



text \<open>
  The process of the container: root, at home in \<^verbatim>\<open>/root\<close>, working in \<^verbatim>\<open>/notebooks\<close>.
\<close>

definition env_ex :: os_env where
  "env_ex = \<lparr>HOME = Some ''/root'', pw_dir = ''/root'',
              getpwnam = (\<lambda>name. if name = ''root'' then Some ''/root'' else None),
              getcwd = ''/notebooks''\<rparr>"

text \<open>
  The models directory exists already (errno 17, EEXIST) and the logs directory may not
  be created (errno 13): the first is passed over, the second is raised.  When both
  exist already, the loop ends normally.
\<close>

definition makedirs_ex :: "string \<Rightarrow> py_error option" where
  "makedirs_ex d =
     (if d = ''/data/models'' then Some (OSError 17)
      else if d = ''/data/logs'' then Some (OSError 13) else None)"

definition makedirs_ex2 :: "string \<Rightarrow> py_error option" where
  "makedirs_ex2 d = Some (OSError 17)"

section \<open>Properties of the padding\<close>

lemma half_odd:
  "h < (m::nat) \<Longrightarrow> (m - h) mod 2 = Suc 0 \<Longrightarrow> Suc ((m - h) div 2 + h + (m - h) div 2) = m"
  by presburger

lemma half_even:
  "h < (m::nat) \<Longrightarrow> (m - h) mod 2 = 0 \<Longrightarrow> (m - h) div 2 + h + (m - h) div 2 = m"
  by presburger

lemma pad_y_fst:
  assumes "shape raw = (f, h, w, c)" "h \<le> my"
  shows "shape (fst (pad_y my (raw, tr))) = (f, my, w, c)"
    and "i < f \<Longrightarrow> j < my \<Longrightarrow> k < w \<Longrightarrow> l < c \<Longrightarrow>
         at (fst (pad_y my (raw, tr))) i j k l =
           (if (my - h) div 2 + (my - h) mod 2 \<le> j \<and> j < (my - h) div 2 + (my - h) mod 2 + h
            then at raw i (j - ((my - h) div 2 + (my - h) mod 2)) k l else 0)"
  using assms
  by (auto simp: pad_y_def shape1_def np_pad_def Let_def half_odd half_even)

lemma pad_x_fst:
  assumes "shape raw = (f, h, w, c)" "w \<le> mx"
  shows "shape (fst (pad_x mx (raw, tr))) = (f, h, mx, c)"
    and "i < f \<Longrightarrow> j < h \<Longrightarrow> k < mx \<Longrightarrow> l < c \<Longrightarrow>
         at (fst (pad_x mx (raw, tr))) i j k l =
           (if (mx - w) div 2 + (mx - w) mod 2 \<le> k \<and> k < (mx - w) div 2 + (mx - w) mod 2 + w
            then at raw i j (k - ((mx - w) div 2 + (mx - w) mod 2)) l else 0)"
  using assms
  by (auto simp: pad_x_def shape2_def np_pad_def Let_def half_odd half_even)

lemma pad_frames_fst:
  assumes "shape raw = (f, h, w, c)" "f \<le> mf"
  shows "shape (fst (pad_frames mf (raw, tr))) = (mf, h, w, c)"
    and "i < mf \<Longrightarrow> j < h \<Longrightarrow> k < w \<Longrightarrow> l < c \<Longrightarrow>
         at (fst (pad_frames mf (raw, tr))) i j k l =
           (if i < f then at raw i j k l else 0)"
  using assms
  by (auto simp: pad_frames_def shape0_def np_pad_def Let_def)

lemma pad_y_swap:
  "shape1 raw = shape1 tr \<Longrightarrow> pad_y my (tr, raw) = prod.swap (pad_y my (raw, tr))"
  by (simp add: pad_y_def Let_def)

lemma pad_x_swap:
  "shape2 raw = shape2 tr \<Longrightarrow> pad_x mx (tr, raw) = prod.swap (pad_x mx (raw, tr))"
  by (simp add: pad_x_def Let_def)

lemma pad_frames_swap:
  "shape0 raw = shape0 tr \<Longrightarrow> pad_frames mf (tr, raw) = prod.swap (pad_frames mf (raw, tr))"
  by (simp add: pad_frames_def Let_def)

lemma pad_movie_fst:
  assumes sh: "shape raw = (f, h, w, c)" and le: "f \<le> mf" "h \<le> my" "w \<le> mx"
  shows "shape (fst (pad_movie mf my mx (raw, tr))) = (mf, my, mx, c)"
    and "i < mf \<Longrightarrow> j < my \<Longrightarrow> k < mx \<Longrightarrow> l < c \<Longrightarrow>
         at (fst (pad_movie mf my mx (raw, tr))) i j k l =
           (if i < f \<and>
               (my - h) div 2 + (my - h) mod 2 \<le> j \<and> j < (my - h) div 2 + (my - h) mod 2 + h \<and>
               (mx - w) div 2 + (mx - w) mod 2 \<le> k \<and> k < (mx - w) div 2 + (mx - w) mod 2 + w
            then at raw i (j - ((my - h) div 2 + (my - h) mod 2))
                          (k - ((mx - w) div 2 + (mx - w) mod 2)) l
            else 0)"
proof -
  obtain r1 t1 where p1: "pad_y my (raw, tr) = (r1, t1)" by (cases "pad_y my (raw, tr)")
  obtain r2 t2 where p2: "pad_x mx (r1, t1) = (r2, t2)" by (cases "pad_x mx (r1, t1)")
  have s1: "shape r1 = (f, my, w, c)"
    using pad_y_fst(1)[OF sh le(2), of tr] p1 by simp
  have s2: "shape r2 = (f, my, mx, c)"
    using pad_x_fst(1)[OF s1 le(3), of t1] p2 by simp
  have pm: "pad_movie mf my mx (raw, tr) = pad_frames mf (r2, t2)"
    by (simp add: pad_movie_def p1 p2)
  show "shape (fst (pad_movie mf my mx (raw, tr))) = (mf, my, mx, c)"
    using pad_frames_fst(1)[OF s2 le(1), of t2] pm by simp
  assume b: "i < mf" "j < my" "k < mx" "l < c"
  have c3: "at (fst (pad_movie mf my mx (raw, tr))) i j k l = (if i < f then at r2 i j k l else 0)"
    using pad_frames_fst(2)[OF s2 le(1) b, of t2] pm by simp
  show "at (fst (pad_movie mf my mx (raw, tr))) i j k l =
           (if i < f \<and>
               (my - h) div 2 + (my - h) mod 2 \<le> j \<and> j < (my - h) div 2 + (my - h) mod 2 + h \<and>
               (mx - w) div 2 + (mx - w) mod 2 \<le> k \<and> k < (mx - w) div 2 + (mx - w) mod 2 + w
            then at raw i (j - ((my - h) div 2 + (my - h) mod 2))
                          (k - ((mx - w) div 2 + (mx - w) mod 2)) l
            else 0)"
  proof (cases "i < f")
    case False
    then show ?thesis using c3 by simp
  next
    case True
    have c2: "at r2 i j k l =
        (if (mx - w) div 2 + (mx - w) mod 2 \<le> k \<and> k < (mx - w) div 2 + (mx - w) mod 2 + w
         then at r1 i j (k - ((mx - w) div 2 + (mx - w) mod 2)) l else 0)"
      using pad_x_fst(2)[OF s1 le(3) True b(2) b(3) b(4), of t1] p2 by simp
    show ?thesis
    proof (cases "(mx - w) div 2 + (mx - w) mod 2 \<le> k \<and> k < (mx - w) div 2 + (mx - w) mod 2 + w")
      case False
      then show ?thesis using c3 c2 True by auto
    next
      case inx: True
      then have kw: "k - ((mx - w) div 2 + (mx - w) mod 2) < w" by arith
      have c1: "at r1 i j (k - ((mx - w) div 2 + (mx - w) mod 2)) l =
          (if (my - h) div 2 + (my - h) mod 2 \<le> j \<and> j < (my - h) div 2 + (my - h) mod 2 + h
           then at raw i (j - ((my - h) div 2 + (my - h) mod 2))
                  (k - ((mx - w) div 2 + (mx - w) mod 2)) l else 0)"
        using pad_y_fst(2)[OF sh le(2) True b(2) kw b(4), of tr] p1 by simp
      show ?thesis using c3 c2 c1 True inx by simp
    qed
  qed
qed

lemma pad_movie_swap:
  assumes "shape raw = (f, h, w, c)" "shape tr = (f, h, w, c)"
  shows "snd (pad_movie mf my mx (raw, tr)) = fst (pad_movie mf my mx (tr, raw))"
proof -
  have e1: "shape1 raw = shape1 tr" "shape2 raw = shape2 tr" "shape0 raw = shape0 tr"
    using assms by (simp_all add: shape0_def shape1_def shape2_def)
  obtain r1 t1 where p1: "pad_y my (raw, tr) = (r1, t1)" by (cases "pad_y my (raw, tr)")
  have q1: "pad_y my (tr, raw) = (t1, r1)" using pad_y_swap[OF e1(1), of my] p1 by simp
  have sh1: "shape r1 = shape t1"
    using p1 assms by (auto simp: pad_y_def Let_def np_pad_def shape1_def split: if_splits)
  obtain r2 t2 where p2: "pad_x mx (r1, t1) = (r2, t2)" by (cases "pad_x mx (r1, t1)")
  have q2: "pad_x mx (t1, r1) = (t2, r2)"
    using pad_x_swap[of r1 t1 mx] sh1 p2 by (simp add: shape2_def)
  have sh2: "shape r2 = shape t2"
    using p2 sh1 by (cases "shape t1") (auto simp: pad_x_def Let_def np_pad_def shape2_def split: if_splits)
  have q3: "pad_frames mf (t2, r2) = prod.swap (pad_frames mf (r2, t2))"
    using pad_frames_swap[of r2 t2 mf] sh2 by (simp add: shape0_def)
  show ?thesis
    by (simp add: pad_movie_def p1 q1 p2 q2 q3)
qed

lemma pad_y_shape:
  "shape raw = (f, h, w, c) \<Longrightarrow> shape (fst (pad_y my (raw, tr))) = (f, max h my, w, c)"
  by (auto simp: pad_y_def Let_def np_pad_def shape1_def max_def half_odd half_even)

lemma pad_x_shape:
  "shape raw = (f, h, w, c) \<Longrightarrow> shape (fst (pad_x mx (raw, tr))) = (f, h, max w mx, c)"
  by (auto simp: pad_x_def Let_def np_pad_def shape2_def max_def half_odd half_even)

lemma pad_frames_shape:
  "shape raw = (f, h, w, c) \<Longrightarrow> shape (fst (pad_frames mf (raw, tr))) = (max f mf, h, w, c)"
  by (auto simp: pad_frames_def Let_def np_pad_def shape0_def max_def)

lemma pad_movie_shape_max:
  assumes "shape raw = (f, h, w, c)"
  shows "shape (fst (pad_movie mf my mx (raw, tr))) = (max f mf, max h my, max w mx, c)"
proof -
  obtain r1 t1 where p1: "pad_y my (raw, tr) = (r1, t1)" by (cases "pad_y my (raw, tr)")
  obtain r2 t2 where p2: "pad_x mx (r1, t1) = (r2, t2)" by (cases "pad_x mx (r1, t1)")
  have s1: "shape r1 = (f, max h my, w, c)"
    using pad_y_shape[OF assms, of my tr] p1 by simp
  have s2: "shape r2 = (f, max h my, max w mx, c)"
    using pad_x_shape[OF s1, of mx t1] p2 by simp
  show ?thesis
    using pad_frames_shape[OF s2, of mf t2] by (simp add: pad_movie_def p1 p2)
qed

lemma pad_movie_unchanged:
  assumes "mf \<le> shape0 raw" "my \<le> shape1 raw" "mx \<le> shape2 raw"
  shows "pad_movie mf my mx (raw, tr) = (raw, tr)"
  using assms
  by (simp add: pad_movie_def pad_frames_def pad_x_def pad_y_def)

lemma before_width_eq: "before_width d = d div 2 + d mod 2"
  by (simp add: before_width_def)

lemma widths_sum: "before_width d + after_width d = d"
  unfolding before_width_eq after_width_def by presburger

lemma widths_fill: "h \<le> m \<Longrightarrow> before_width (m - h) + h + after_width (m - h) = m"
  using widths_sum[of "m - h"] by simp

text \<open>
  C8.  A movie whose raw and tracked arrays have the shape (f, h, w, c), with f, h and w
  at most the maxima, leaves the padding step with both arrays of shape
  (max_frames, max_y, max_x, c).  Every element of the result is either an element of
  the input or 0: the input sits at frame offset 0 (frames are added at the end only), at
  row offset \<open>before_width (max_y - h)\<close> and at column offset \<open>before_width (max_x - w)\<close>,
  where the before-width of an odd deficit is one more than the after-width; raw and
  tracked are placed alike.
\<close>

theorem pad_movie_uniform:
  assumes "shape raw = (f, h, w, c)" and "shape tracked = (f, h, w, c)"
    and "f \<le> max_frames" and "h \<le> max_y" and "w \<le> max_x"
  shows "shape (fst (pad_movie max_frames max_y max_x (raw, tracked))) = (max_frames, max_y, max_x, c) \<and>
         shape (snd (pad_movie max_frames max_y max_x (raw, tracked))) = (max_frames, max_y, max_x, c) \<and>
         before_width (max_y - h) + h + after_width (max_y - h) = max_y \<and>
         before_width (max_x - w) + w + after_width (max_x - w) = max_x \<and>
         (\<forall>i < max_frames. \<forall>j < max_y. \<forall>k < max_x. \<forall>l < c.
            at (fst (pad_movie max_frames max_y max_x (raw, tracked))) i j k l =
              (if i < f \<and>
                  before_width (max_y - h) \<le> j \<and> j < before_width (max_y - h) + h \<and>
                  before_width (max_x - w) \<le> k \<and> k < before_width (max_x - w) + w
               then at raw i (j - before_width (max_y - h)) (k - before_width (max_x - w)) l
               else 0) \<and>
            at (snd (pad_movie max_frames max_y max_x (raw, tracked))) i j k l =
              (if i < f \<and>
                  before_width (max_y - h) \<le> j \<and> j < before_width (max_y - h) + h \<and>
                  before_width (max_x - w) \<le> k \<and> k < before_width (max_x - w) + w
               then at tracked i (j - before_width (max_y - h)) (k - before_width (max_x - w)) l
               else 0))"
proof -
  have sw: "snd (pad_movie max_frames max_y max_x (raw, tracked)) =
            fst (pad_movie max_frames max_y max_x (tracked, raw))"
    using pad_movie_swap[OF assms(1) assms(2)] .
  have wy: "before_width (max_y - h) + h + after_width (max_y - h) = max_y"
    using assms(4) by (rule widths_fill)
  have wx: "before_width (max_x - w) + w + after_width (max_x - w) = max_x"
    using assms(5) by (rule widths_fill)
  have A: "shape (fst (pad_movie max_frames max_y max_x (raw, tracked))) = (max_frames, max_y, max_x, c)"
    using pad_movie_fst(1)[OF assms(1) assms(3) assms(4) assms(5)] .
  have B: "shape (snd (pad_movie max_frames max_y max_x (raw, tracked))) = (max_frames, max_y, max_x, c)"
    unfolding sw using pad_movie_fst(1)[OF assms(2) assms(3) assms(4) assms(5)] .
  have C: "at (fst (pad_movie max_frames max_y max_x (raw, tracked))) i j k l =
              (if i < f \<and>
                  before_width (max_y - h) \<le> j \<and> j < before_width (max_y - h) + h \<and>
                  before_width (max_x - w) \<le> k \<and> k < before_width (max_x - w) + w
               then at raw i (j - before_width (max_y - h)) (k - before_width (max_x - w)) l
               else 0)"
    if "i < max_frames" "j < max_y" "k < max_x" "l < c" for i j k l
    unfolding before_width_eq
    using that by (rule pad_movie_fst(2)[OF assms(1) assms(3) assms(4) assms(5)])
  have D: "at (snd (pad_movie max_frames max_y max_x (raw, tracked))) i j k l =
              (if i < f \<and>
                  before_width (max_y - h) \<le> j \<and> j < before_width (max_y - h) + h \<and>
                  before_width (max_x - w) \<le> k \<and> k < before_width (max_x - w) + w
               then at tracked i (j - before_width (max_y - h)) (k - before_width (max_x - w)) l
               else 0)"
    if "i < max_frames" "j < max_y" "k < max_x" "l < c" for i j k l
    unfolding before_width_eq sw
    using that by (rule pad_movie_fst(2)[OF assms(2) assms(3) assms(4) assms(5)])
  from C D have E: "\<forall>i < max_frames. \<forall>j < max_y. \<forall>k < max_x. \<forall>l < c.
            at (fst (pad_movie max_frames max_y max_x (raw, tracked))) i j k l =
              (if i < f \<and>
                  before_width (max_y - h) \<le> j \<and> j < before_width (max_y - h) + h \<and>
                  before_width (max_x - w) \<le> k \<and> k < before_width (max_x - w) + w
               then at raw i (j - before_width (max_y - h)) (k - before_width (max_x - w)) l
               else 0) \<and>
            at (snd (pad_movie max_frames max_y max_x (raw, tracked))) i j k l =
              (if i < f \<and>
                  before_width (max_y - h) \<le> j \<and> j < before_width (max_y - h) + h \<and>
                  before_width (max_x - w) \<le> k \<and> k < before_width (max_x - w) + w
               then at tracked i (j - before_width (max_y - h)) (k - before_width (max_x - w)) l
               else 0)"
    by blast
  from A B wy wx E show ?thesis by (intro conjI)
qed

theorem pad_movie_uniform_witness:
  "shape raw_ex = (1, 1, 2, 1) \<and> shape tracked_ex = (1, 1, 2, 1) \<and>
   shape (fst (pad_movie 2 4 5 (raw_ex, tracked_ex))) = (2, 4, 5, 1) \<and>
   shape (snd (pad_movie 2 4 5 (raw_ex, tracked_ex))) = (2, 4, 5, 1) \<and>
   before_width (4 - 1) = 2 \<and> after_width (4 - 1) = 1 \<and>
   at (fst (pad_movie 2 4 5 (raw_ex, tracked_ex))) 0 2 2 0 = 7 \<and>
   at (fst (pad_movie 2 4 5 (raw_ex, tracked_ex))) 0 2 3 0 = 8 \<and>
   at (fst (pad_movie 2 4 5 (raw_ex, tracked_ex))) 0 1 2 0 = 0 \<and>
   at (fst (pad_movie 2 4 5 (raw_ex, tracked_ex))) 0 3 2 0 = 0 \<and>
   at (fst (pad_movie 2 4 5 (raw_ex, tracked_ex))) 0 2 4 0 = 0 \<and>
   at (fst (pad_movie 2 4 5 (raw_ex, tracked_ex))) 1 2 2 0 = 0 \<and>
   at (snd (pad_movie 2 4 5 (raw_ex, tracked_ex))) 0 2 3 0 = 1 \<and>
   at (snd (pad_movie 2 4 5 (raw_ex, tracked_ex))) 0 2 1 0 = 0"
proof -
  have s: "shape raw_ex = (1, 1, 2, 1)" "shape tracked_ex = (1, 1, 2, 1)"
    by (simp_all add: raw_ex_def tracked_ex_def)
  have b: "before_width 3 = 2" "after_width 3 = 1"
    by (simp_all add: before_width_def after_width_def)
  have le: "(1::nat) \<le> 2" "(1::nat) \<le> 4" "(2::nat) \<le> 5" by simp_all
  note u = pad_movie_uniform[OF s le]
  note e = u[THEN conjunct2, THEN conjunct2, THEN conjunct2, THEN conjunct2, rule_format]
  have at_r: "at raw_ex i j k l = 7 + k" and at_t: "at tracked_ex i j k l = 1" for i j k l
    by (simp_all add: raw_ex_def tracked_ex_def)
  have e1: "at (fst (pad_movie 2 4 5 (raw_ex, tracked_ex))) 0 2 2 0 = 7"
    using e[of 0 2 2 0] by (simp add: b at_r)
  have e2: "at (fst (pad_movie 2 4 5 (raw_ex, tracked_ex))) 0 2 3 0 = 8"
    using e[of 0 2 3 0] by (simp add: b at_r)
  have e3: "at (fst (pad_movie 2 4 5 (raw_ex, tracked_ex))) 0 1 2 0 = 0"
    using e[of 0 1 2 0] by (simp add: b)
  have e4: "at (fst (pad_movie 2 4 5 (raw_ex, tracked_ex))) 0 3 2 0 = 0"
    using e[of 0 3 2 0] by (simp add: b)
  have e5: "at (fst (pad_movie 2 4 5 (raw_ex, tracked_ex))) 0 2 4 0 = 0"
    using e[of 0 2 4 0] by (simp add: b)
  have e6: "at (fst (pad_movie 2 4 5 (raw_ex, tracked_ex))) 1 2 2 0 = 0"
    using e[of 1 2 2 0] by (simp add: b)
  have e7: "at (snd (pad_movie 2 4 5 (raw_ex, tracked_ex))) 0 2 3 0 = 1"
    using e[of 0 2 3 0] by (simp add: b at_t)
  have e8: "at (snd (pad_movie 2 4 5 (raw_ex, tracked_ex))) 0 2 1 0 = 0"
    using e[of 0 2 1 0] by (simp add: b)
  have b': "before_width (4 - 1) = 2" "after_width (4 - 1) = 1"
    using b by simp_all
  from s u[THEN conjunct1] u[THEN conjunct2, THEN conjunct1] b' e1 e2 e3 e4 e5 e6 e7 e8
  show ?thesis by (intro conjI)
qed

section \<open>Properties of the maximum dimensions\<close>

lemma if_gt_max: "(if (s::nat) > a then s else a) = max s a"
  by (simp add: max_def)

lemma max_loop_fold:
  "max_loop (a, b, c) trks_files =
     (if \<exists>t \<in> set trks_files. X t = [] then Inl IndexError
      else Inr (fold max (map (\<lambda>t. shape0 (hd (X t))) trks_files) a,
                fold max (map (\<lambda>t. shape1 (hd (X t))) trks_files) b,
                fold max (map (\<lambda>t. shape2 (hd (X t))) trks_files) c))"
proof (induction trks_files arbitrary: a b c)
  case Nil
  then show ?case by simp
next
  case (Cons t ts)
  show ?case
  proof (cases "X t")
    case Nil
    then show ?thesis by (simp add: max_step_def)
  next
    case (Cons m ms)
    then show ?thesis
      by (simp add: max_step_def Cons.IH if_gt_max)
  qed
qed

lemma max_dims_Max:
  "max_dims trks_files =
     (if \<exists>t \<in> set trks_files. X t = [] then Inl IndexError
      else Inr (Max (set (1 # map (\<lambda>t. shape0 (hd (X t))) trks_files)),
                Max (set (1 # map (\<lambda>t. shape1 (hd (X t))) trks_files)),
                Max (set (1 # map (\<lambda>t. shape2 (hd (X t))) trks_files))))"
  unfolding max_dims_def max_loop_fold Max.set_eq_fold ..

lemma max_loop_first_only:
  "map (\<lambda>t. take 1 (X t)) trks_files = map (\<lambda>t. take 1 (X t)) trks_files' \<Longrightarrow>
   max_loop acc trks_files = max_loop acc trks_files'"
proof (induction trks_files arbitrary: trks_files' acc)
  case Nil
  then show ?case by simp
next
  case (Cons t ts)
  then obtain t' ts' where f': "trks_files' = t' # ts'" by (cases trks_files') auto
  with Cons.prems have hd: "take 1 (X t) = take 1 (X t')"
    and tl: "map (\<lambda>t. take 1 (X t)) ts = map (\<lambda>t. take 1 (X t)) ts'" by auto
  have st: "max_step acc t = max_step acc t'"
    using hd by (cases "X t"; cases "X t'") (auto simp: max_step_def split: prod.splits)
  show ?case
    using Cons.IH[OF tl] by (simp add: f' st split: sum.splits)
qed

text \<open>
  C9.  The maxima are the largest frame count, height and width among the first movies
  of the files and the initial value 1 (reading the first movie of a file without movies
  raises IndexError).  Two lists of files that agree on the first movie of every file
  have the same maxima, whatever their later movies are.  In the padding step an axis
  that is longer than its maximum keeps its length (the resulting length of every axis is
  the larger of the movie's and the maximum), and a movie that reaches or exceeds the
  maxima on all three axes is passed on as it is.
\<close>

theorem max_dims_first_movie_only:
  fixes trks_files :: "('l, 'a::zero) trks list"
  shows "max_dims trks_files =
           (if \<exists>t \<in> set trks_files. X t = [] then Inl IndexError
            else Inr (Max (set (1 # map (\<lambda>t. shape0 (hd (X t))) trks_files)),
                      Max (set (1 # map (\<lambda>t. shape1 (hd (X t))) trks_files)),
                      Max (set (1 # map (\<lambda>t. shape2 (hd (X t))) trks_files)))) \<and>
         (\<forall>trks_files' :: ('l, 'a) trks list.
            map (\<lambda>t. take 1 (X t)) trks_files' = map (\<lambda>t. take 1 (X t)) trks_files \<longrightarrow>
            max_dims trks_files' = max_dims trks_files) \<and>
         (\<forall>max_frames max_y max_x (raw :: 'a ndarray) tracked.
            shape (fst (pad_movie max_frames max_y max_x (raw, tracked))) =
              (max (shape0 raw) max_frames, max (shape1 raw) max_y, max (shape2 raw) max_x,
               shape3 raw) \<and>
            (max_frames \<le> shape0 raw \<and> max_y \<le> shape1 raw \<and> max_x \<le> shape2 raw \<longrightarrow>
             pad_movie max_frames max_y max_x (raw, tracked) = (raw, tracked)))"
proof (intro conjI allI impI)
  show "max_dims trks_files =
           (if \<exists>t \<in> set trks_files. X t = [] then Inl IndexError
            else Inr (Max (set (1 # map (\<lambda>t. shape0 (hd (X t))) trks_files)),
                      Max (set (1 # map (\<lambda>t. shape1 (hd (X t))) trks_files)),
                      Max (set (1 # map (\<lambda>t. shape2 (hd (X t))) trks_files))))"
    by (rule max_dims_Max)
next
  fix trks_files' :: "('l, 'a) trks list"
  assume "map (\<lambda>t. take 1 (X t)) trks_files' = map (\<lambda>t. take 1 (X t)) trks_files"
  then show "max_dims trks_files' = max_dims trks_files"
    unfolding max_dims_def by (rule max_loop_first_only)
next
  fix max_frames max_y max_x and raw tracked :: "'a ndarray"
  obtain f h w c where sh: "shape raw = (f, h, w, c)" by (cases "shape raw")
  show "shape (fst (pad_movie max_frames max_y max_x (raw, tracked))) =
              (max (shape0 raw) max_frames, max (shape1 raw) max_y, max (shape2 raw) max_x,
               shape3 raw)"
    using pad_movie_shape_max[OF sh]
    by (simp add: shape0_def shape1_def shape2_def shape3_def sh)
next
  fix max_frames max_y max_x and raw tracked :: "'a ndarray"
  assume "max_frames \<le> shape0 raw \<and> max_y \<le> shape1 raw \<and> max_x \<le> shape2 raw"
  then show "pad_movie max_frames max_y max_x (raw, tracked) = (raw, tracked)"
    by (simp add: pad_movie_unchanged)
qed

theorem max_dims_first_movie_only_witness:
  "max_dims files_ex = Inr (2, 5, 4) \<and>
   map (\<lambda>t. take 1 (X t)) files_ex' = map (\<lambda>t. take 1 (X t)) files_ex \<and>
   max_dims files_ex' = max_dims files_ex \<and>
   2 \<le> shape0 (movie_ex 9 9 9) \<and> 5 \<le> shape1 (movie_ex 9 9 9) \<and> 4 \<le> shape2 (movie_ex 9 9 9) \<and>
   pad_movie 2 5 4 (movie_ex 9 9 9, movie_ex 9 9 9) = (movie_ex 9 9 9, movie_ex 9 9 9) \<and>
   shape (fst (pad_movie 2 5 4 (movie_ex 9 3 9, movie_ex 9 3 9))) = (9, 5, 9, 1)"
proof -
  note u = max_dims_first_movie_only[of files_ex]
  have sh: "shape0 (movie_ex f h w) = f" "shape1 (movie_ex f h w) = h"
    "shape2 (movie_ex f h w) = w" "shape3 (movie_ex f h w) = 1" for f h w
    by (simp_all add: movie_ex_def shape0_def shape1_def shape2_def shape3_def)
  have a: "max_dims files_ex = Inr (2, 5, 4)"
    using u[THEN conjunct1] by (simp add: files_ex_def sh Max.set_eq_fold)
  have b: "map (\<lambda>t. take 1 (X t)) files_ex' = map (\<lambda>t. take 1 (X t)) files_ex"
    by (simp add: files_ex_def files_ex'_def)
  have c: "max_dims files_ex' = max_dims files_ex"
    using u[THEN conjunct2, THEN conjunct1, rule_format, OF b] .
  have le: "2 \<le> shape0 (movie_ex 9 9 9)" "5 \<le> shape1 (movie_ex 9 9 9)" "4 \<le> shape2 (movie_ex 9 9 9)"
    by (simp_all add: sh)
  have d: "pad_movie 2 5 4 (movie_ex 9 9 9, movie_ex 9 9 9) = (movie_ex 9 9 9, movie_ex 9 9 9)"
    using u[THEN conjunct2, THEN conjunct2, rule_format, THEN conjunct2, rule_format,
        of 2 "movie_ex 9 9 9" 5 4 "movie_ex 9 9 9"] le by simp
  have e: "shape (fst (pad_movie 2 5 4 (movie_ex 9 3 9, movie_ex 9 3 9))) = (9, 5, 9, 1)"
    using u[THEN conjunct2, THEN conjunct2, rule_format, THEN conjunct1,
        of 2 5 4 "movie_ex 9 3 9" "movie_ex 9 3 9"] by (simp add: sh)
  from a b c le d e show ?thesis by (intro conjI)
qed

section \<open>Properties of the container build\<close>

subsection \<open>Running the Dockerfile, instruction by instruction\<close>

lemma step_simps:
  "step ctx args s (Comment c) = Inr s"
  "step ctx args s (ARG n d) = Inr (s\<lparr>env := (env s)(n \<mapsto> (case args n of Some v \<Rightarrow> v | None \<Rightarrow> d))\<rparr>)"
  "step ctx args s (FROM ps) = Inr (s\<lparr>base := subst (env s) ps\<rparr>)"
  "step ctx args s (RUN_script t) = Inr s"
  "step ctx args s (COPY srcs dest) = copy_sources ctx srcs dest s"
  "step ctx args s (WORKDIR d) = Inr (s\<lparr>workdir := d\<rparr>)"
  "step ctx args s (CMD argv) = Inr (s\<lparr>cmd := Some argv\<rparr>)"
  by (simp_all add: step_def)

lemma copy_sources_frame:
  "copy_sources ctx srcs dest s = Inr s' \<Longrightarrow> \<exists>f. s' = s\<lparr>files := f\<rparr>"
proof (induction srcs arbitrary: s)
  case Nil
  then have "s' = s\<lparr>files := files s\<rparr>" by simp
  then show ?case by blast
next
  case (Cons src srcs)
  then show ?case
    by (fastforce split: option.splits)
qed

lemma run9:
  "step ctx args s (RUN [''apt-get'', ''update'', ''&&'',
          ''DEBIAN_FRONTEND=noninteractive'', ''apt-get'', ''install'', ''-y'',
            ''python3-tk'', ''git'', ''libsm6'', ''&&'',
          ''rm'', ''-rf'', ''/var/lib/apt/lists/*'', ''&&'',
          ''/usr/local/bin/pip'', ''install'', ''--upgrade'', ''pip'']) =
   Inr (log_install [Apt [''python3-tk'', ''git'', ''libsm6''], Pip ''pip''] s)"
  by (simp add: step_def exec_command_def is_assignment_def is_option_def is_pip_def log_install_def)

lemma run20:
  "step ctx args s (RUN [''sed'', ''-i'', ''/tensorflow/d'', ''/opt/deepcell-tf/requirements.txt'', ''&&'',
          ''pip'', ''install'', ''-r'', ''/opt/deepcell-tf/requirements.txt'']) =
   (case files s ''/opt/deepcell-tf/requirements.txt'' of
      None \<Rightarrow> Inl (No_such_file ''/opt/deepcell-tf/requirements.txt'')
    | Some ls \<Rightarrow> Inr (log_install [PipRequirements (sed_d ''tensorflow'' ls)]
         (s\<lparr>files := (files s)(''/opt/deepcell-tf/requirements.txt'' \<mapsto> sed_d ''tensorflow'' ls)\<rparr>)))"
  by (simp add: step_def exec_command_def is_assignment_def is_option_def is_pip_def log_install_def
      sed_delete_pattern_def split: option.splits)

lemma run27:
  "step ctx args s (RUN [''pip'', ''install'', ''/opt/deepcell-tf'', ''&&'',
          ''cd'', ''/opt/deepcell-tf'', ''&&'',
          ''python'', ''setup.py'', ''build_ext'', ''--inplace'']) =
   Inr (log_install [Pip ''/opt/deepcell-tf''] s)"
  by (simp add: step_def exec_command_def is_assignment_def is_option_def is_pip_def log_install_def)

lemma run32:
  "step ctx args s (RUN [''pip'', ''install'', ''--upgrade'',
          ''git+https://github.com/keras-team/keras-applications.git'']) =
   Inr (log_install [Pip ''git+https://github.com/keras-team/keras-applications.git''] s)"
  by (simp add: step_def exec_command_def is_assignment_def is_option_def is_pip_def log_install_def)

lemma run35:
  "step ctx args s (RUN [''curl'', ''https://packages.cloud.google.com/apt/doc/apt-key.gpg'', ''|'',
          ''apt-key'', ''add'', ''-'']) = Inr s"
  by (simp add: step_def exec_command_def is_assignment_def is_option_def is_pip_def log_install_def)

lemma run37:
  "step ctx args s (RUN [''echo'', ''deb https://packages.cloud.google.com/apt coral-edgetpu-stable main'', ''|'',
          ''tee'', ''/etc/apt/sources.list.d/coral-edgetpu.list'']) = Inr s"
  by (simp add: step_def exec_command_def is_assignment_def is_option_def is_pip_def log_install_def)

lemma run39:
  "step ctx args s (RUN [''apt-get'', ''update'']) = Inr s"
  by (simp add: step_def exec_command_def is_assignment_def is_option_def is_pip_def log_install_def)

lemma run43:
  "step ctx args s (RUN [''apt-get'', ''install'', ''-y'', ''libedgetpu1-std'']) =
   Inr (log_install [Apt [''libedgetpu1-std'']] s)"
  by (simp add: step_def exec_command_def is_assignment_def is_option_def is_pip_def log_install_def)

lemma run45:
  "step ctx args s (RUN [''mkdir'', ''/coral'']) = Inr s"
  by (simp add: step_def exec_command_def is_assignment_def is_option_def is_pip_def log_install_def)

lemma run49:
  "step ctx args s (RUN [''git'', ''clone'', ''https://github.com/google-coral/tflite.git'']) =
   Inr (log_install [GitClone ''https://github.com/google-coral/tflite.git''] s)"
  by (simp add: step_def exec_command_def is_assignment_def is_option_def is_pip_def log_install_def)

lemma run51:
  "step ctx args s (RUN [''pip'', ''install'',
          ''https://dl.google.com/coral/python/tflite_runtime-2.1.0.post1-cp36-cp36m-linux_x86_64.whl'']) =
   Inr (log_install [Pip ''https://dl.google.com/coral/python/tflite_runtime-2.1.0.post1-cp36-cp36m-linux_x86_64.whl''] s)"
  by (simp add: step_def exec_command_def is_assignment_def is_option_def is_pip_def log_install_def)

lemma run55:
  "step ctx args s (RUN [''./install_requirements.sh'']) = Inr s"
  by (simp add: step_def exec_command_def is_assignment_def is_option_def is_pip_def log_install_def)

lemmas run_simps = run9 run20 run27 run32 run35 run37 run39 run43 run45 run49 run51 run55

lemma build_Dockerfile:
  assumes "build ctx args Dockerfile = Inr img"
  shows "\<exists>s1 ls.
     copy_sources ctx [''setup.py'', ''requirements.txt''] ''/opt/deepcell-tf/''
       (log_install [Apt [''python3-tk'', ''git'', ''libsm6''], Pip ''pip'']
          (empty_image\<lparr>env := [''TF_VERSION'' \<mapsto> (case args ''TF_VERSION'' of Some v \<Rightarrow> v | None \<Rightarrow> ''1.15.0-gpu'')],
                        base := ''tensorflow/tensorflow:'' @ (case args ''TF_VERSION'' of Some v \<Rightarrow> v | None \<Rightarrow> ''1.15.0-gpu'') @ ''-py3''\<rparr>)) = Inr s1 \<and>
     files s1 ''/opt/deepcell-tf/requirements.txt'' = Some ls \<and>
     base img = ''tensorflow/tensorflow:'' @ (case args ''TF_VERSION'' of Some v \<Rightarrow> v | None \<Rightarrow> ''1.15.0-gpu'') @ ''-py3'' \<and>
     installs img =
       [Apt [''python3-tk'', ''git'', ''libsm6''], Pip ''pip'',
        PipRequirements (sed_d ''tensorflow'' ls),
        Pip ''/opt/deepcell-tf'',
        Pip ''git+https://github.com/keras-team/keras-applications.git'',
        Apt [''libedgetpu1-std''],
        GitClone ''https://github.com/google-coral/tflite.git'',
        Pip ''https://dl.google.com/coral/python/tflite_runtime-2.1.0.post1-cp36-cp36m-linux_x86_64.whl''] \<and>
     workdir img = ''/notebooks'' \<and>
     cmd img = Some [''jupyter'', ''notebook'', ''--ip=0.0.0.0'', ''--allow-root'']"
  using assms
  apply (simp add: build_def Dockerfile_def step_simps run_simps
      del: copy_sources.simps split: sum.splits option.splits)
  apply (auto dest!: copy_sources_frame simp: log_install_def empty_image_def simp del: copy_sources.simps)
  done


lemma build_ex_succeeds: "\<not> isl (build ctx_ex args Dockerfile)"
  by (simp add: build_def Dockerfile_def step_simps run_simps ctx_ex_def copy_source_def
      basename_def strip_slash_def log_install_def empty_image_def sed_d_def)

lemma build_ex_Inr: "build ctx_ex args Dockerfile = Inr (projr (build ctx_ex args Dockerfile))"
  using build_ex_succeeds[of args] by (cases "build ctx_ex args Dockerfile") simp_all

lemma build_image_ex: "build ctx_ex Map.empty Dockerfile = Inr image_ex"
  unfolding image_ex_def by (rule build_ex_Inr)

lemma build_image_ex2: "build ctx_ex [''TF_VERSION'' \<mapsto> ''2.0.0''] Dockerfile = Inr image_ex2"
  unfolding image_ex2_def by (rule build_ex_Inr)





subsection \<open>The default command\<close>

text \<open>
  C1.  Every image the Dockerfile builds has the default command
  \<^verbatim>\<open>jupyter notebook --ip=0.0.0.0 --allow-root\<close>, and a container started from it
  without a command of its own runs exactly that.
\<close>

theorem default_command_jupyter:
  assumes "build ctx args Dockerfile = Inr img"
  shows "cmd img = Some [''jupyter'', ''notebook'', ''--ip=0.0.0.0'', ''--allow-root''] \<and>
         container_command img None =
           Some [''jupyter'', ''notebook'', ''--ip=0.0.0.0'', ''--allow-root'']"
  using build_Dockerfile[OF assms] by (auto simp: container_command_def)

theorem default_command_jupyter_witness:
  "build ctx_ex Map.empty Dockerfile = Inr image_ex \<and>
   cmd image_ex = Some [''jupyter'', ''notebook'', ''--ip=0.0.0.0'', ''--allow-root''] \<and>
   container_command image_ex None =
     Some [''jupyter'', ''notebook'', ''--ip=0.0.0.0'', ''--allow-root'']"
  using default_command_jupyter[OF build_image_ex] build_image_ex by simp

subsection \<open>The base image\<close>

text \<open>
  C5.  \<^verbatim>\<open>TF_VERSION\<close> is the only build argument of the Dockerfile.  Given the value v,
  the base image is \<^verbatim>\<open>tensorflow/tensorflow:v-py3\<close>; not given, it is
  \<^verbatim>\<open>tensorflow/tensorflow:1.15.0-gpu-py3\<close>.  The tag ends in \<^verbatim>\<open>-py3\<close> in both cases.
\<close>

theorem base_image_tag:
  assumes "build ctx args Dockerfile = Inr img"
  shows "build_arguments Dockerfile = [''TF_VERSION''] \<and>
         base img =
           (case args ''TF_VERSION'' of
              Some v \<Rightarrow> ''tensorflow/tensorflow:'' @ v @ ''-py3''
            | None \<Rightarrow> ''tensorflow/tensorflow:1.15.0-gpu-py3'') \<and>
         suffix ''-py3'' (base img)"
proof -
  have a: "build_arguments Dockerfile = [''TF_VERSION'']"
    by (simp add: build_arguments_def Dockerfile_def)
  have b: "base img = ''tensorflow/tensorflow:'' @
             (case args ''TF_VERSION'' of Some v \<Rightarrow> v | None \<Rightarrow> ''1.15.0-gpu'') @ ''-py3''"
    using build_Dockerfile[OF assms] by blast
  have c: "suffix ''-py3'' (base img)"
    unfolding b by (simp only: append_assoc[symmetric] suffix_appendI suffix_order.refl)
  from a b c show ?thesis by (simp split: option.splits)
qed

theorem base_image_tag_witness:
  "build ctx_ex Map.empty Dockerfile = Inr image_ex \<and>
   base image_ex = ''tensorflow/tensorflow:1.15.0-gpu-py3'' \<and>
   build ctx_ex [''TF_VERSION'' \<mapsto> ''2.0.0''] Dockerfile = Inr image_ex2 \<and>
   base image_ex2 = ''tensorflow/tensorflow:2.0.0-py3''"
  using base_image_tag[OF build_image_ex] base_image_tag[OF build_image_ex2]
    build_image_ex build_image_ex2 by simp

subsection \<open>The requirements\<close>




subsection \<open>The order of the installations\<close>

lemma phase_of_simps:
  "phase_of (Apt [''python3-tk'', ''git'', ''libsm6'']) = Some System"
  "phase_of (Pip ''pip'') = None"
  "phase_of (PipRequirements ls) = Some PyDeps"
  "phase_of (Pip ''/opt/deepcell-tf'') = Some Package"
  "phase_of (Pip ''git+https://github.com/keras-team/keras-applications.git'') = None"
  "phase_of (Apt [''libedgetpu1-std'']) = Some EdgeTPU"
  "phase_of (GitClone ''https://github.com/google-coral/tflite.git'') = Some EdgeTPU"
  "phase_of (Pip ''https://dl.google.com/coral/python/tflite_runtime-2.1.0.post1-cp36-cp36m-linux_x86_64.whl'') = Some EdgeTPU"
  by (simp add: phase_of_def; code_simp)+

text \<open>
  C6.  In build order the installations are: the system packages, the requirements, the
  package, and then the three of the Edge TPU toolchain.  The sequence of phases never
  steps back, and each of the four phases occurs.
\<close>

theorem install_phases_in_order:
  assumes "build ctx args Dockerfile = Inr img"
  shows "phases img = [System, PyDeps, Package, EdgeTPU, EdgeTPU, EdgeTPU] \<and>
         sorted (map phase_rank (phases img)) \<and>
         set (phases img) = {System, PyDeps, Package, EdgeTPU}"
proof -
  from build_Dockerfile[OF assms] obtain ls where
    i: "installs img =
       [Apt [''python3-tk'', ''git'', ''libsm6''], Pip ''pip'',
        PipRequirements (sed_d ''tensorflow'' ls),
        Pip ''/opt/deepcell-tf'',
        Pip ''git+https://github.com/keras-team/keras-applications.git'',
        Apt [''libedgetpu1-std''],
        GitClone ''https://github.com/google-coral/tflite.git'',
        Pip ''https://dl.google.com/coral/python/tflite_runtime-2.1.0.post1-cp36-cp36m-linux_x86_64.whl'']"
    by blast
  have p: "phases img = [System, PyDeps, Package, EdgeTPU, EdgeTPU, EdgeTPU]"
    by (simp add: phases_def i List.map_filter_simps phase_of_simps)
  show ?thesis
    unfolding p by (simp add: phase_rank_def)
qed

theorem install_phases_in_order_witness:
  "build ctx_ex Map.empty Dockerfile = Inr image_ex \<and>
   phases image_ex = [System, PyDeps, Package, EdgeTPU, EdgeTPU, EdgeTPU] \<and>
   sorted (map phase_rank (phases image_ex))"
  using install_phases_in_order[OF build_image_ex] build_image_ex by blast

subsection \<open>The Edge TPU tools\<close>

text \<open>
  C3.  The Dockerfile announces the Edge TPU compiler in the heading of its last
  installation part, and the build does not install it: the image built from the example
  context has no Edge TPU compiler package among its installed packages.
\<close>

theorem edgetpu_compiler_counterexample:
  "build ctx_ex Map.empty Dockerfile = Inr image_ex \<and> \<not> installs_edgetpu_compiler image_ex"
proof -
  from build_Dockerfile[OF build_image_ex] obtain ls where
    i: "installs image_ex =
       [Apt [''python3-tk'', ''git'', ''libsm6''], Pip ''pip'',
        PipRequirements (sed_d ''tensorflow'' ls),
        Pip ''/opt/deepcell-tf'',
        Pip ''git+https://github.com/keras-team/keras-applications.git'',
        Apt [''libedgetpu1-std''],
        GitClone ''https://github.com/google-coral/tflite.git'',
        Pip ''https://dl.google.com/coral/python/tflite_runtime-2.1.0.post1-cp36-cp36m-linux_x86_64.whl'']"
    by blast
  have "\<not> installs_edgetpu_compiler image_ex"
    by (simp add: installs_edgetpu_compiler_def apt_packages_def i edgetpu_compiler_packages_def)
  with build_image_ex show ?thesis by simp
qed

text \<open>
  C3, on every build.  Every build installs, with apt-get, the three system packages and the
  Edge TPU runtime library \<^verbatim>\<open>libedgetpu1-std\<close> and nothing else; it clones the
  google-coral tflite repository and installs the tflite_runtime wheel; it does not
  install the Edge TPU compiler, whose installation is a comment of the Dockerfile and
  not an instruction.
\<close>

theorem edgetpu_runtime_only:
  assumes "build ctx args Dockerfile = Inr img"
  shows "apt_packages img = [''python3-tk'', ''git'', ''libsm6'', ''libedgetpu1-std''] \<and>
         filter (\<lambda>i. phase_of i = Some EdgeTPU) (installs img) =
           [Apt [''libedgetpu1-std''],
            GitClone ''https://github.com/google-coral/tflite.git'',
            Pip ''https://dl.google.com/coral/python/tflite_runtime-2.1.0.post1-cp36-cp36m-linux_x86_64.whl''] \<and>
         \<not> installs_edgetpu_compiler img \<and>
         Comment ''RUN apt-get install -y edgetpu'' \<in> set Dockerfile \<and>
         RUN [''apt-get'', ''install'', ''-y'', ''edgetpu''] \<notin> set Dockerfile"
proof -
  from build_Dockerfile[OF assms] obtain ls where
    i: "installs img =
       [Apt [''python3-tk'', ''git'', ''libsm6''], Pip ''pip'',
        PipRequirements (sed_d ''tensorflow'' ls),
        Pip ''/opt/deepcell-tf'',
        Pip ''git+https://github.com/keras-team/keras-applications.git'',
        Apt [''libedgetpu1-std''],
        GitClone ''https://github.com/google-coral/tflite.git'',
        Pip ''https://dl.google.com/coral/python/tflite_runtime-2.1.0.post1-cp36-cp36m-linux_x86_64.whl'']"
    by blast
  have a: "apt_packages img = [''python3-tk'', ''git'', ''libsm6'', ''libedgetpu1-std'']"
    by (simp add: apt_packages_def i)
  have b: "filter (\<lambda>i. phase_of i = Some EdgeTPU) (installs img) =
           [Apt [''libedgetpu1-std''],
            GitClone ''https://github.com/google-coral/tflite.git'',
            Pip ''https://dl.google.com/coral/python/tflite_runtime-2.1.0.post1-cp36-cp36m-linux_x86_64.whl'']"
    by (simp add: i phase_of_simps)
  have c: "\<not> installs_edgetpu_compiler img"
    by (simp add: installs_edgetpu_compiler_def a edgetpu_compiler_packages_def)
  have d: "Comment ''RUN apt-get install -y edgetpu'' \<in> set Dockerfile"
    by (simp add: Dockerfile_def)
  have e: "RUN [''apt-get'', ''install'', ''-y'', ''edgetpu''] \<notin> set Dockerfile"
    by (simp add: Dockerfile_def)
  from a b c d e show ?thesis by (intro conjI)
qed

theorem edgetpu_runtime_only_witness:
  "build ctx_ex Map.empty Dockerfile = Inr image_ex \<and>
   apt_packages image_ex = [''python3-tk'', ''git'', ''libsm6'', ''libedgetpu1-std''] \<and>
   \<not> installs_edgetpu_compiler image_ex"
  using edgetpu_runtime_only[OF build_image_ex] build_image_ex by simp

section \<open>Properties of the notebook's paths\<close>






lemma norm_comps_append:
  "\<forall>c \<in> set cs. plain_component c \<Longrightarrow> norm_comps ini acc (cs @ ds) = norm_comps ini (acc @ cs) ds"
  by (induction cs arbitrary: acc) (auto simp: plain_component_def)


























lemma expanduser_examples:
  "expanduser env_ex ''~/.keras/datasets'' = ''/root/.keras/datasets''"
  "expanduser env_ex ''~root/x'' = ''/root/x''"
  "expanduser env_ex ''~nobody/x'' = ''~nobody/x''"
  "expanduser (env_ex\<lparr>HOME := None, pw_dir := ''/home/u/''\<rparr>) ''~'' = ''/home/u''"
  by (simp_all add: expanduser_def env_ex_def rstrip_sep_def)

lemma relpath_examples:
  "relpath ''/notebooks'' ''/a/b/c'' ''/a/d'' = Inr ''../b/c''"
  "relpath ''/notebooks'' (dirname ''/root/.keras/datasets/sub/x.trks'') ''/root/.keras/datasets'' = Inr ''sub''"
  "relpath ''/notebooks'' ''data'' ''/'' = Inr ''notebooks/data''"
  "relpath ''/notebooks'' [] ''/'' = Inl ValueError"
  by code_simp+




subsection \<open>Creating the directories\<close>

lemma try_makedirs_ok:
  "try_makedirs makedirs d = Inr () \<longleftrightarrow> makedirs d = None \<or> makedirs d = Some (OSError EEXIST)"
  by (auto simp: try_makedirs_def split: option.splits py_error.splits)

lemma try_makedirs_raises:
  "try_makedirs makedirs d = Inl exc \<longleftrightarrow> makedirs d = Some exc \<and> exc \<noteq> OSError EEXIST"
  by (auto simp: try_makedirs_def split: option.splits py_error.splits)

lemma create_dirs_ok:
  "create_dirs makedirs ds = Inr () \<longleftrightarrow>
     (\<forall>d \<in> set ds. makedirs d = None \<or> makedirs d = Some (OSError EEXIST))"
proof (induction ds)
  case Nil
  show ?case by simp
next
  case (Cons d ds)
  show ?case
  proof (cases "try_makedirs makedirs d")
    case (Inl exc)
    then have "\<not> (makedirs d = None \<or> makedirs d = Some (OSError EEXIST))"
      using try_makedirs_ok[of makedirs d] by simp
    with Inl show ?thesis by simp
  next
    case (Inr u)
    then have "makedirs d = None \<or> makedirs d = Some (OSError EEXIST)"
      using try_makedirs_ok[of makedirs d] by simp
    with Inr Cons.IH show ?thesis by simp
  qed
qed

lemma create_dirs_first:
  "create_dirs makedirs (ds @ d # ds') = Inl exc"
  if "\<forall>d' \<in> set ds. makedirs d' = None \<or> makedirs d' = Some (OSError EEXIST)"
    and "makedirs d = Some exc" and "exc \<noteq> OSError EEXIST"
  using that
proof (induction ds)
  case Nil
  then have "try_makedirs makedirs d = Inl exc"
    by (simp add: try_makedirs_raises)
  then show ?case by simp
next
  case (Cons a ds)
  then have "try_makedirs makedirs a = Inr ()"
    by (simp add: try_makedirs_ok)
  with Cons show ?case by simp
qed

lemma create_dirs_raises:
  "create_dirs makedirs ds = Inl exc \<Longrightarrow>
   exc \<noteq> OSError EEXIST \<and> (\<exists>d \<in> set ds. makedirs d = Some exc)"
proof (induction ds)
  case Nil
  then show ?case by simp
next
  case (Cons d ds)
  show ?case
  proof (cases "try_makedirs makedirs d")
    case (Inl e)
    with Cons.prems have "e = exc" by simp
    with Inl show ?thesis by (simp add: try_makedirs_raises)
  next
    case (Inr u)
    with Cons show ?thesis by simp
  qed
qed

text \<open>
  C2.  One round of the loop lets an OSError of \<^verbatim>\<open>os.makedirs\<close> pass when its errno is
  EEXIST and raises it again otherwise.  The loop over the directories ends without an
  exception exactly when every call returns or raises OSError with EEXIST; otherwise the
  exception of the first directory whose call raises anything else leaves the loop, and
  the exception that leaves the loop is never an OSError with EEXIST.
\<close>

theorem makedirs_suppresses_only_eexist:
  "(\<forall>d e. makedirs d = Some (OSError e) \<longrightarrow>
      try_makedirs makedirs d = (if e = EEXIST then Inr () else Inl (OSError e))) \<and>
   (create_dirs makedirs [model_dir, log_dir] = Inr () \<longleftrightarrow>
      (makedirs model_dir = None \<or> makedirs model_dir = Some (OSError EEXIST)) \<and>
      (makedirs log_dir = None \<or> makedirs log_dir = Some (OSError EEXIST))) \<and>
   (create_dirs makedirs ds = Inr () \<longleftrightarrow>
      (\<forall>d \<in> set ds. makedirs d = None \<or> makedirs d = Some (OSError EEXIST))) \<and>
   (\<forall>exc. create_dirs makedirs ds = Inl exc \<longrightarrow>
      exc \<noteq> OSError EEXIST \<and> (\<exists>d \<in> set ds. makedirs d = Some exc)) \<and>
   (\<forall>before d after exc.
      (\<forall>d' \<in> set before. makedirs d' = None \<or> makedirs d' = Some (OSError EEXIST)) \<and>
      makedirs d = Some exc \<and> exc \<noteq> OSError EEXIST \<longrightarrow>
      create_dirs makedirs (before @ d # after) = Inl exc)"
proof (intro conjI allI impI)
  fix d e
  assume "makedirs d = Some (OSError e)"
  then show "try_makedirs makedirs d = (if e = EEXIST then Inr () else Inl (OSError e))"
    by (simp add: try_makedirs_def)
next
  show "create_dirs makedirs [model_dir, log_dir] = Inr () \<longleftrightarrow>
      (makedirs model_dir = None \<or> makedirs model_dir = Some (OSError EEXIST)) \<and>
      (makedirs log_dir = None \<or> makedirs log_dir = Some (OSError EEXIST))"
    using create_dirs_ok[of makedirs "[model_dir, log_dir]"] by simp
next
  show "create_dirs makedirs ds = Inr () \<longleftrightarrow>
      (\<forall>d \<in> set ds. makedirs d = None \<or> makedirs d = Some (OSError EEXIST))"
    by (rule create_dirs_ok)
next
  fix exc
  assume a: "create_dirs makedirs ds = Inl exc"
  show "exc \<noteq> OSError EEXIST"
    using create_dirs_raises[OF a] by simp
  show "\<exists>d \<in> set ds. makedirs d = Some exc"
    using create_dirs_raises[OF a] by simp
next
  fix before d after exc
  assume "(\<forall>d' \<in> set before. makedirs d' = None \<or> makedirs d' = Some (OSError EEXIST)) \<and>
      makedirs d = Some exc \<and> exc \<noteq> OSError EEXIST"
  then show "create_dirs makedirs (before @ d # after) = Inl exc"
    by (simp add: create_dirs_first)
qed

theorem makedirs_suppresses_only_eexist_witness:
  "makedirs_ex ''/data/models'' = Some (OSError EEXIST) \<and>
   try_makedirs makedirs_ex ''/data/models'' = Inr () \<and>
   makedirs_ex ''/data/logs'' = Some (OSError 13) \<and>
   try_makedirs makedirs_ex ''/data/logs'' = Inl (OSError 13) \<and>
   create_dirs makedirs_ex [''/data/models'', ''/data/logs''] = Inl (OSError 13) \<and>
   create_dirs makedirs_ex2 [''/data/models'', ''/data/logs''] = Inr ()"
proof -
  note u = makedirs_suppresses_only_eexist[of makedirs_ex "''/data/models''" "''/data/logs''" "[]"]
  note v = makedirs_suppresses_only_eexist[of makedirs_ex2 "''/data/models''" "''/data/logs''" "[]"]
  have m: "makedirs_ex ''/data/models'' = Some (OSError EEXIST)"
    by (simp add: makedirs_ex_def EEXIST_def)
  have l: "makedirs_ex ''/data/logs'' = Some (OSError 13)"
    by (simp add: makedirs_ex_def)
  have a: "try_makedirs makedirs_ex ''/data/models'' = Inr ()"
    using u[THEN conjunct1, rule_format, OF m] by simp
  have b: "try_makedirs makedirs_ex ''/data/logs'' = Inl (OSError 13)"
    using u[THEN conjunct1, rule_format, OF l] by (simp add: EEXIST_def)
  have c: "create_dirs makedirs_ex [''/data/models'', ''/data/logs''] = Inl (OSError 13)"
    using u[THEN conjunct2, THEN conjunct2, THEN conjunct2, THEN conjunct2, rule_format,
        of "[''/data/models'']" "''/data/logs''" "OSError 13" "[]"] m l
    by (simp add: EEXIST_def)
  have d: "create_dirs makedirs_ex2 [''/data/models'', ''/data/logs''] = Inr ()"
    using v[THEN conjunct2, THEN conjunct1] by (simp add: makedirs_ex2_def EEXIST_def)
  from m a l b c d show ?thesis by (intro conjI)
qed

section \<open>Properties of the segmentation application\<close>

text \<open>
  C7.  The result of \<^verbatim>\<open>predict\<close> has the shape of the movie it is given, and its
  element at a pixel is the label the pretrained model gives that pixel.
\<close>

theorem predict_same_shape:
  "shape (predict pretrained x) = shape x \<and>
   at (predict pretrained x) = pretrained x"
  by (simp add: predict_def)

end
